theory Spec2Isabelle
  imports Complex_Main
begin

section \<open>JavaScript values\<close>

text \<open>
  The two request handlers of \<^verbatim>\<open>faceapi_server.js\<close> build their responses as object
  literals handed to \<^verbatim>\<open>res.json\<close>. The model keeps them as values of a small
  JavaScript value type, so that every field of a response can be read back by name.

  Numbers are exact reals together with the three special values a division can
  produce; the rounding error of IEEE doubles is not modelled (times are integer
  milliseconds and lengths are small integers, far below \<open>2^53\<close>).
\<close>

datatype js_number = Num real | NaN | Infinity | NegInfinity

datatype js_value =
    JNull
  | JBool bool
  | JNum js_number
  | JStr string
  | JArr "js_value list"
  | JObj "(string \<times> js_value) list"

text \<open>Truthiness, as used by \<^verbatim>\<open>!image\<close> and by \<^verbatim>\<open>results.filter(r => r.success)\<close>.\<close>

fun truthy :: "js_value \<Rightarrow> bool" where
  "truthy JNull = False"
| "truthy (JBool b) = b"
| "truthy (JNum n) = (n \<noteq> Num 0 \<and> n \<noteq> NaN)"
| "truthy (JStr s) = (s \<noteq> [])"
| "truthy (JArr vs) = True"
| "truthy (JObj kvs) = True"

text \<open>Property access \<^verbatim>\<open>o.k\<close> on an object literal; \<open>None\<close> is \<^verbatim>\<open>undefined\<close>.\<close>

fun field :: "js_value \<Rightarrow> string \<Rightarrow> js_value option" where
  "field (JObj kvs) k = map_of kvs k"
| "field v k = None"

text \<open>
  \<^verbatim>\<open>a / b\<close> on two finite numbers: a zero divisor gives \<^verbatim>\<open>NaN\<close> or an infinity, it
  does not raise. \<^verbatim>\<open>Math.round\<close> rounds halves up and leaves the special values alone.
\<close>

definition js_divide :: "real \<Rightarrow> real \<Rightarrow> js_number" where
  "js_divide a b =
     (if b = 0 then (if a = 0 then NaN else if 0 < a then Infinity else NegInfinity)
      else Num (a / b))"

fun Math_round :: "js_number \<Rightarrow> js_number" where
  "Math_round (Num v) = Num (of_int \<lfloor>v + 1 / 2\<rfloor>)"
| "Math_round n = n"

section \<open>The inference engine and its results\<close>

text \<open>
  \<^verbatim>\<open>faceapi.detectSingleFace(img, options).withFaceLandmarks().withFaceDescriptor()\<close>
  resolves to \<^verbatim>\<open>undefined\<close> (no face) or to an object with a \<^verbatim>\<open>detection\<close>
  (box and score), \<^verbatim>\<open>landmarks\<close> and a \<^verbatim>\<open>descriptor\<close>, or it rejects with an error.
  The handlers test \<^verbatim>\<open>detection.descriptor\<close>, \<^verbatim>\<open>detection.landmarks\<close> and
  \<^verbatim>\<open>detection.detection.score\<close> for presence, so these three are optional here.
  A descriptor is a sequence of numbers of any length, a score a finite number, and the
  box is always there. The type \<open>'img\<close> stands for the decoded image.
\<close>

record face_box =
  box_x :: real
  box_y :: real
  box_width :: real
  box_height :: real

record face_detection =
  box :: face_box
  score :: "real option"

record detection_result =
  detection :: face_detection
  landmarks :: "(real \<times> real) list option"
  descriptor :: "real list option"

datatype detector_options =
    TinyFaceDetectorOptions (inputSize: nat) (scoreThreshold: real)
  | SsdMobilenetv1Options (minConfidence: real)

record strategy =
  name :: string
  options :: detector_options

text \<open>
  An awaited call either resolves to a value or rejects with an error that has a message.
  A call that never settles is outside the model: the source sets no timeout, and a
  handler waits as long as its collaborators do.
\<close>

datatype 'a outcome = Returns 'a | Throws string

text \<open>
  The external collaborators of a handler: the clock behind \<^verbatim>\<open>Date.now()\<close> (its
  \<open>k\<close>-th reading), the decoder \<^verbatim>\<open>canvas.loadImage(Buffer.from(payload, 'base64'))\<close>
  and the engine call above.
\<close>

record 'img env =
  now :: "nat \<Rightarrow> int"
  loadImage :: "js_value \<Rightarrow> 'img outcome"
  detectSingleFace :: "'img \<Rightarrow> detector_options \<Rightarrow> detection_result option outcome"

text \<open>
  What a handler does to the outside world, in order: each decoding, each engine call and
  each \<^verbatim>\<open>console.warn\<close> of the strategy loop (strategy name and error message).
\<close>

datatype 'img event =
    LoadImage js_value
  | DetectSingleFace 'img detector_options
  | ConsoleWarn string string

record 'img st =
  ticks :: nat
  trace :: "'img event list"

definition Date_now :: "'img env \<Rightarrow> 'img st \<Rightarrow> int \<times> 'img st" where
  "Date_now E s = (now E (ticks s), s\<lparr>ticks := Suc (ticks s)\<rparr>)"

definition emit :: "'img event \<Rightarrow> 'img st \<Rightarrow> 'img st" where
  "emit e s = s\<lparr>trace := trace s @ [e]\<rparr>"

section \<open>Server state, requests and responses\<close>

record server =
  modelsLoaded :: bool
  loadingProgress :: js_value

text \<open>The two fields the handlers read from \<^verbatim>\<open>req.body\<close>; \<open>None\<close> is \<^verbatim>\<open>undefined\<close>.\<close>

record request =
  image :: "js_value option"
  images :: "js_value option"

record response =
  status :: nat
  body :: js_value

definition json :: "js_value \<Rightarrow> response" where
  "json v = \<lparr>status = 200, body = v\<rparr>"

definition status_json :: "nat \<Rightarrow> js_value \<Rightarrow> response" where
  "status_json c v = \<lparr>status = c, body = v\<rparr>"

definition num :: "real \<Rightarrow> js_value" where
  "num v = JNum (Num v)"

section \<open>POST /extract\_embedding\<close>

text \<open>The four strategies of the single-image path, in the order of the source.\<close>

definition detectionStrategies :: "strategy list" where
  "detectionStrategies =
     [\<lparr>name = ''TinyFaceDetector_High'', options = TinyFaceDetectorOptions 416 0.3\<rparr>,
      \<lparr>name = ''TinyFaceDetector_Medium'', options = TinyFaceDetectorOptions 320 0.4\<rparr>,
      \<lparr>name = ''TinyFaceDetector_Low'', options = TinyFaceDetectorOptions 224 0.5\<rparr>,
      \<lparr>name = ''SsdMobilenetv1'', options = SsdMobilenetv1Options 0.3\<rparr>]"

text \<open>
  \<^verbatim>\<open>detection && detection.descriptor\<close>: the test of the loop and of both success
  branches. A typed array is truthy whatever its length, so the test is presence.
\<close>

fun accepted :: "detection_result option \<Rightarrow> bool" where
  "accepted None = False"
| "accepted (Some d) = (descriptor d \<noteq> None)"

text \<open>
  The strategy loop. The variable \<^verbatim>\<open>detection\<close> (here \<open>det\<close>) keeps the value of the last call that
  resolved; a call that rejects leaves it as it was, warns and continues.
  \<^verbatim>\<open>usedStrategy\<close> is set only on the iteration that breaks. The clock is read at the
  start of every iteration and once more for the log line of the winning one.
\<close>

fun try_strategies ::
  "'img env \<Rightarrow> 'img \<Rightarrow> strategy list \<Rightarrow> detection_result option \<Rightarrow> 'img st
     \<Rightarrow> detection_result option \<times> string option \<times> 'img st" where
  "try_strategies E img [] det s = (det, None, s)"
| "try_strategies E img (strategy # rest) det s =
     (let (detectionStartTime, s1) = Date_now E s;
          s2 = emit (DetectSingleFace img (options strategy)) s1
      in case detectSingleFace E img (options strategy) of
           Throws msg \<Rightarrow>
             try_strategies E img rest det (emit (ConsoleWarn (name strategy) msg) s2)
         | Returns d \<Rightarrow>
             if accepted d
             then (let (t, s3) = Date_now E s2 in (d, Some (name strategy), s3))
             else try_strategies E img rest d s2)"

text \<open>\<^verbatim>\<open>detection.detection.score || 0.0\<close>: a missing or zero score gives \<open>0\<close>.\<close>

definition confidence_of :: "detection_result \<Rightarrow> js_value" where
  "confidence_of d =
     (case score (detection d) of
        None \<Rightarrow> num 0
      | Some v \<Rightarrow> if v = 0 then num 0 else num v)"

definition success_response ::
  "detection_result \<Rightarrow> real list \<Rightarrow> int \<Rightarrow> string option \<Rightarrow> js_value" where
  "success_response d desc totalTime usedStrategy =
     JObj [(''success'', JBool True),
           (''embedding'', JArr (map num desc)),
           (''inferenceTime'', num (of_int totalTime)),
           (''strategy'', (case usedStrategy of None \<Rightarrow> JNull | Some n \<Rightarrow> JStr n)),
           (''boundingBox'',
              JObj [(''x'', JNum (Math_round (Num (box_x (box (detection d)))))),
                    (''y'', JNum (Math_round (Num (box_y (box (detection d)))))),
                    (''width'', JNum (Math_round (Num (box_width (box (detection d)))))),
                    (''height'', JNum (Math_round (Num (box_height (box (detection d))))))]),
           (''confidence'', confidence_of d),
           (''landmarks'',
              (case landmarks d of None \<Rightarrow> num 0 | Some ps \<Rightarrow> num (of_nat (length ps))))]"

definition failure_response :: "strategy list \<Rightarrow> int \<Rightarrow> js_value" where
  "failure_response strategies totalTime =
     JObj [(''success'', JBool False),
           (''error'', JStr ''No face detected with any strategy''),
           (''inferenceTime'', num (of_int totalTime)),
           (''strategiesTried'', JArr (map (\<lambda>s. JStr (name s)) strategies))]"

text \<open>
  The handler, with the strategy list as a parameter; the route itself is the instance at
  \<open>detectionStrategies\<close>. With an engine and a decoder that either resolve or reject,
  nothing inside the outer \<^verbatim>\<open>try\<close> escapes the two inner ones, so the handler's
  \<^verbatim>\<open>catch\<close> (HTTP 500) has no branch here.
\<close>

definition extract_embedding_with ::
  "strategy list \<Rightarrow> 'img env \<Rightarrow> server \<Rightarrow> request \<Rightarrow> 'img st \<Rightarrow> response \<times> 'img st" where
  "extract_embedding_with strategies E srv req s =
     (if \<not> modelsLoaded srv
      then (status_json 503
              (JObj [(''success'', JBool False),
                     (''error'', JStr ''Models not loaded yet''),
                     (''progress'', loadingProgress srv)]), s)
      else
        let (startTime, s1) = Date_now E s;
            no_image = status_json 400
              (JObj [(''success'', JBool False),
                     (''error'', JStr ''No image provided in request body'')])
        in case image req of
             None \<Rightarrow> (no_image, s1)
           | Some payload \<Rightarrow>
               if \<not> truthy payload then (no_image, s1)
               else
                 let s2 = emit (LoadImage payload) s1
                 in (case loadImage E payload of
                      Throws msg \<Rightarrow>
                        (status_json 400
                           (JObj [(''success'', JBool False),
                                  (''error'', JStr ''Invalid image format or corrupted base64 data'')]),
                         s2)
                    | Returns img \<Rightarrow>
                        let (det, usedStrategy, s3) = try_strategies E img strategies None s2;
                            (endTime, s4) = Date_now E s3;
                            totalTime = endTime - startTime
                        in ((case det of
                               None \<Rightarrow> json (failure_response strategies totalTime)
                             | Some d \<Rightarrow>
                                 (case descriptor d of
                                    None \<Rightarrow> json (failure_response strategies totalTime)
                                  | Some desc \<Rightarrow>
                                      json (success_response d desc totalTime usedStrategy))),
                            s4)))"

definition extract_embedding ::
  "'img env \<Rightarrow> server \<Rightarrow> request \<Rightarrow> 'img st \<Rightarrow> response \<times> 'img st" where
  "extract_embedding = extract_embedding_with detectionStrategies"

section \<open>POST /batch\_extract\<close>

text \<open>
  One iteration of the batch loop: the body of the \<^verbatim>\<open>for\<close>, with its own
  \<^verbatim>\<open>try\<close>/\<^verbatim>\<open>catch\<close>. The clock is read at the start and once more on every path.
\<close>

definition failed_item :: "nat \<Rightarrow> int \<Rightarrow> string \<Rightarrow> js_value" where
  "failed_item i t msg =
     JObj [(''index'', num (of_nat i)),
           (''success'', JBool False),
           (''inferenceTime'', num (of_int t)),
           (''error'', JStr msg)]"

definition process_item :: "'img env \<Rightarrow> js_value \<Rightarrow> nat \<Rightarrow> 'img st \<Rightarrow> js_value \<times> 'img st" where
  "process_item E payload i s =
     (let (imageStartTime, s1) = Date_now E s;
          s2 = emit (LoadImage payload) s1
      in case loadImage E payload of
           Throws msg \<Rightarrow>
             (let (t, s3) = Date_now E s2 in (failed_item i (t - imageStartTime) msg, s3))
         | Returns img \<Rightarrow>
             let s3 = emit (DetectSingleFace img (TinyFaceDetectorOptions 416 0.3)) s2
             in (case detectSingleFace E img (TinyFaceDetectorOptions 416 0.3) of
                  Throws msg \<Rightarrow>
                    (let (t, s4) = Date_now E s3 in (failed_item i (t - imageStartTime) msg, s4))
                | Returns det \<Rightarrow>
                    let (t, s4) = Date_now E s3;
                        imageTime = t - imageStartTime
                    in ((case det of
                           None \<Rightarrow> failed_item i imageTime ''No face detected''
                         | Some d \<Rightarrow>
                             (case descriptor d of
                                None \<Rightarrow> failed_item i imageTime ''No face detected''
                              | Some desc \<Rightarrow>
                                  JObj [(''index'', num (of_nat i)),
                                        (''success'', JBool True),
                                        (''embedding'', JArr (map num desc)),
                                        (''inferenceTime'', num (of_int imageTime)),
                                        (''confidence'', confidence_of d)])),
                        s4)))"

text \<open>\<^verbatim>\<open>for (let i = 0; i < images.length; i++) { ... results.push(...) }\<close>\<close>

function batch_loop ::
  "'img env \<Rightarrow> js_value list \<Rightarrow> nat \<Rightarrow> js_value list \<Rightarrow> 'img st \<Rightarrow> js_value list \<times> 'img st" where
  "batch_loop E imgs i results s =
     (if i < length imgs
      then (let (item, s') = process_item E (imgs ! i) i s
            in batch_loop E imgs (i + 1) (results @ [item]) s')
      else (results, s))"
  by pat_completeness auto
termination
  by (relation "measure (\<lambda>(E, imgs, i, results, s). length imgs - i)") auto

declare batch_loop.simps [simp del]

text \<open>\<^verbatim>\<open>r => r.success\<close>\<close>

definition item_success :: "js_value \<Rightarrow> bool" where
  "item_success r = (case field r ''success'' of None \<Rightarrow> False | Some v \<Rightarrow> truthy v)"

definition batch_summary :: "nat \<Rightarrow> nat \<Rightarrow> int \<Rightarrow> js_value" where
  "batch_summary len successful totalTime =
     JObj [(''total'', num (of_nat len)),
           (''successful'', num (of_nat successful)),
           (''failed'', num (of_nat len - of_nat successful)),
           (''totalTime'', num (of_int totalTime)),
           (''averageTime'', JNum (Math_round (js_divide (of_int totalTime) (of_nat len))))]"

text \<open>
  The handler. \<^verbatim>\<open>!images || !Array.isArray(images)\<close> lets exactly the arrays through,
  the empty one included. As above, nothing escapes the per-item \<^verbatim>\<open>try\<close>, so the outer
  \<^verbatim>\<open>catch\<close> (HTTP 500) has no branch.
\<close>

definition batch_extract ::
  "'img env \<Rightarrow> server \<Rightarrow> request \<Rightarrow> 'img st \<Rightarrow> response \<times> 'img st" where
  "batch_extract E srv req s =
     (if \<not> modelsLoaded srv
      then (status_json 503
              (JObj [(''error'', JStr ''Models not loaded yet''),
                     (''progress'', loadingProgress srv)]), s)
      else
        case images req of
          Some (JArr imgs) \<Rightarrow>
            let (startTime, s1) = Date_now E s;
                (results, s2) = batch_loop E imgs 0 [] s1;
                (endTime, s3) = Date_now E s2;
                totalTime = endTime - startTime;
                successful = length (filter item_success results)
            in (json (JObj [(''results'', JArr results),
                            (''summary'', batch_summary (length imgs) successful totalTime)]),
                s3)
        | _ \<Rightarrow> (status_json 400 (JObj [(''error'', JStr ''Images array is required'')]), s))"

section \<open>Vocabulary of the properties\<close>

text \<open>
  An attempt succeeds when the engine call resolves to a value the loop accepts. What one
  unsuccessful attempt leaves in the trace: the engine call, then the warning if it
  rejected.
\<close>

definition attempt_ok :: "'img env \<Rightarrow> 'img \<Rightarrow> strategy \<Rightarrow> bool" where
  "attempt_ok E img st =
     (case detectSingleFace E img (options st) of Returns d \<Rightarrow> accepted d | Throws m \<Rightarrow> False)"

definition attempt_fails :: "'img env \<Rightarrow> 'img \<Rightarrow> strategy \<Rightarrow> bool" where
  "attempt_fails E img st = (\<not> attempt_ok E img st)"

definition attempt_events :: "'img env \<Rightarrow> 'img \<Rightarrow> strategy \<Rightarrow> 'img event list" where
  "attempt_events E img st =
     DetectSingleFace img (options st) #
       (case detectSingleFace E img (options st) of
          Throws m \<Rightarrow> [ConsoleWarn (name st) m]
        | Returns d \<Rightarrow> [])"

text \<open>The engine calls of a trace, in order: image and options of each.\<close>

fun detect_calls :: "'img event list \<Rightarrow> ('img \<times> detector_options) list" where
  "detect_calls [] = []"
| "detect_calls (DetectSingleFace img opts # es) = (img, opts) # detect_calls es"
| "detect_calls (e # es) = detect_calls es"

fun load_calls :: "'img event list \<Rightarrow> js_value list" where
  "load_calls [] = []"
| "load_calls (LoadImage v # es) = v # load_calls es"
| "load_calls (e # es) = load_calls es"

text \<open>
  The specification's stricter reading of a usable attempt, needed only to compare it with
  \<open>attempt_ok\<close>: the descriptor is present and has at least one entry.
\<close>

definition nonempty_descriptor :: "'img env \<Rightarrow> 'img \<Rightarrow> strategy \<Rightarrow> bool" where
  "nonempty_descriptor E img st =
     (case detectSingleFace E img (options st) of
        Returns (Some d) \<Rightarrow> (case descriptor d of Some (v # vs) \<Rightarrow> True | _ \<Rightarrow> False)
      | _ \<Rightarrow> False)"

text \<open>
  The batch loop in closed form. One iteration reads the clock exactly twice on every
  path, so the item it pushes is a function of the payload, the index and the difference
  \<open>t\<close> of its two readings, and its events are a function of the payload.
\<close>

definition item_of :: "'img env \<Rightarrow> js_value \<Rightarrow> nat \<Rightarrow> int \<Rightarrow> js_value" where
  "item_of E payload i t =
     (case loadImage E payload of
        Throws msg \<Rightarrow> failed_item i t msg
      | Returns img \<Rightarrow>
          (case detectSingleFace E img (TinyFaceDetectorOptions 416 0.3) of
             Throws msg \<Rightarrow> failed_item i t msg
           | Returns None \<Rightarrow> failed_item i t ''No face detected''
           | Returns (Some d) \<Rightarrow>
               (case descriptor d of
                  None \<Rightarrow> failed_item i t ''No face detected''
                | Some desc \<Rightarrow>
                    JObj [(''index'', num (of_nat i)),
                          (''success'', JBool True),
                          (''embedding'', JArr (map num desc)),
                          (''inferenceTime'', num (of_int t)),
                          (''confidence'', confidence_of d)])))"

definition item_events :: "'img env \<Rightarrow> js_value \<Rightarrow> 'img event list" where
  "item_events E payload =
     LoadImage payload #
       (case loadImage E payload of
          Throws msg \<Rightarrow> []
        | Returns img \<Rightarrow> [DetectSingleFace img (TinyFaceDetectorOptions 416 0.3)])"

definition items_from :: "'img env \<Rightarrow> js_value list \<Rightarrow> nat \<Rightarrow> nat \<Rightarrow> js_value list" where
  "items_from E imgs k i =
     map (\<lambda>j. item_of E (imgs ! j) j (now E (k + 2 * (j - i) + 1) - now E (k + 2 * (j - i))))
       [i..<length imgs]"

text \<open>The images that decode, in the order of their payloads.\<close>

definition decoded :: "'img env \<Rightarrow> js_value list \<Rightarrow> 'img list" where
  "decoded E imgs =
     concat (map (\<lambda>p. case loadImage E p of Returns img \<Rightarrow> [img] | Throws msg \<Rightarrow> []) imgs)"

section \<open>Sample inputs\<close>

text \<open>
  Concrete collaborators on which the properties below are exercised: a clock that
  advances 7 ms per reading, a decoder that accepts every string but one, and several
  engines.
\<close>

definition face :: "real option \<Rightarrow> real list \<Rightarrow> detection_result" where
  "face sc desc =
     \<lparr>detection = \<lparr>box = \<lparr>box_x = 10.4, box_y = 20.5, box_width = 99.6, box_height = 120\<rparr>,
                   score = sc\<rparr>,
      landmarks = Some [(1, 2), (3, 4)],
      descriptor = Some desc\<rparr>"

fun sample_decoder :: "js_value \<Rightarrow> nat outcome" where
  "sample_decoder (JStr s) =
     (if s = ''not-an-image'' then Throws ''Unsupported image type'' else Returns (length s))"
| "sample_decoder v = Throws ''The first argument must be of type string''"

definition sample_env ::
  "(nat \<Rightarrow> detector_options \<Rightarrow> detection_result option outcome) \<Rightarrow> nat env" where
  "sample_env engine =
     \<lparr>now = (\<lambda>k. 1000 + 7 * int k), loadImage = sample_decoder, detectSingleFace = engine\<rparr>"

text \<open>No face under any configuration.\<close>

definition engine_none :: "nat \<Rightarrow> detector_options \<Rightarrow> detection_result option outcome" where
  "engine_none img opts = Returns None"

text \<open>A face at input size 320 only.\<close>

definition engine_medium :: "nat \<Rightarrow> detector_options \<Rightarrow> detection_result option outcome" where
  "engine_medium img opts =
     (case opts of
        TinyFaceDetectorOptions sz th \<Rightarrow>
          if sz = 320 then Returns (Some (face (Some 0.87) [0.1, 0.2])) else Returns None
      | SsdMobilenetv1Options c \<Rightarrow> Returns None)"


text \<open>
  No face at input size 416, a rejection at 320, a face whose score is missing at 224.
\<close>

definition engine_flaky :: "nat \<Rightarrow> detector_options \<Rightarrow> detection_result option outcome" where
  "engine_flaky img opts =
     (case opts of
        TinyFaceDetectorOptions sz th \<Rightarrow>
          if sz = 416 then Returns None
          else if sz = 320 then Throws ''backend failure''
          else Returns (Some (face None [0.1, 0.2]))
      | SsdMobilenetv1Options c \<Rightarrow> Returns None)"

text \<open>Only the SSD detector finds the face.\<close>

definition engine_ssd_only :: "nat \<Rightarrow> detector_options \<Rightarrow> detection_result option outcome" where
  "engine_ssd_only img opts =
     (case opts of
        TinyFaceDetectorOptions sz th \<Rightarrow> Returns None
      | SsdMobilenetv1Options c \<Rightarrow> Returns (Some (face (Some 0.6) [0.1, 0.2])))"

text \<open>
  An engine that depends on the image only: image 4 has a face, image 5 has none, on
  image 6 inference rejects, every other image has a face without a score.
\<close>

definition engine_by_image :: "nat \<Rightarrow> detector_options \<Rightarrow> detection_result option outcome" where
  "engine_by_image img opts =
     (if img = 4 then Returns (Some (face (Some 0.9) [0.1, 0.2]))
      else if img = 5 then Returns None
      else if img = 6 then Throws ''inference failed''
      else Returns (Some (face None [0.3])))"

definition ready :: server where
  "ready = \<lparr>modelsLoaded = True,
             loadingProgress = JObj [(''TinyFaceDetector'', JStr ''loaded''),
                                     (''FaceLandmark68Net'', JStr ''loaded''),
                                     (''FaceRecognitionNet'', JStr ''loaded''),
                                     (''FaceExpressionNet'', JStr ''loaded''),
                                     (''AgeGenderNet'', JStr ''loaded''),
                                     (''SsdMobilenetv1'', JStr ''loaded'')]\<rparr>"

definition loading :: server where
  "loading = \<lparr>modelsLoaded = False,
               loadingProgress = JObj [(''TinyFaceDetector'', JStr ''loaded''),
                                       (''FaceLandmark68Net'', JStr ''loaded'')]\<rparr>"

definition single :: "string \<Rightarrow> request" where
  "single payload = \<lparr>image = Some (JStr payload), images = None\<rparr>"

definition batch :: "js_value list \<Rightarrow> request" where
  "batch payloads = \<lparr>image = None, images = Some (JArr payloads)\<rparr>"

definition s0 :: "nat st" where
  "s0 = \<lparr>ticks = 0, trace = []\<rparr>"

text \<open>
  A batch of four payloads: a face, an undecodable payload, an image without a face and an
  image on which inference rejects.
\<close>

definition sample_batch :: "js_value list" where
  "sample_batch = [JStr ''AAAA'', JStr ''not-an-image'', JStr ''AAAAA'', JStr ''AAAAAA'']"

section \<open>The strategy loop\<close>

text \<open>
  Two facts carry every property of the single-image path: a loop in which no attempt
  succeeds runs through the whole list, and a loop whose first successful attempt is
  at \<open>w\<close> stops there.
\<close>

lemma try_strategies_exhausted:
  "\<forall>st\<in>set sts. \<not> attempt_ok E img st \<Longrightarrow> \<not> accepted det \<Longrightarrow>
   \<not> accepted (fst (try_strategies E img sts det s)) \<and>
   fst (snd (try_strategies E img sts det s)) = None \<and>
   snd (snd (try_strategies E img sts det s)) =
     s\<lparr>ticks := ticks s + length sts,
       trace := trace s @ concat (map (attempt_events E img) sts)\<rparr>"
proof (induction sts arbitrary: det s)
  case Nil
  then show ?case by simp
next
  case (Cons st sts)
  show ?case
  proof (cases "detectSingleFace E img (options st)")
    case (Returns d)
    with Cons.prems have nd: "\<not> accepted d" by (simp add: attempt_ok_def)
    from Cons.prems have rest: "\<forall>st\<in>set sts. \<not> attempt_ok E img st" by simp
    show ?thesis
      using Cons.IH[OF rest nd] Returns nd
      by (simp add: Date_now_def emit_def attempt_events_def)
  next
    case (Throws m)
    from Cons.prems have rest: "\<forall>st\<in>set sts. \<not> attempt_ok E img st" by simp
    show ?thesis
      using Cons.IH[OF rest Cons.prems(2)] Throws
      by (simp add: Date_now_def emit_def attempt_events_def)
  qed
qed

lemma try_strategies_stops:
  "\<forall>st\<in>set pre. \<not> attempt_ok E img st \<Longrightarrow> attempt_ok E img w \<Longrightarrow>
   try_strategies E img (pre @ w # post) det s =
     (case detectSingleFace E img (options w) of Returns d \<Rightarrow> d | Throws m \<Rightarrow> None,
      Some (name w),
      s\<lparr>ticks := ticks s + length pre + 2,
        trace := trace s @ concat (map (attempt_events E img) pre) @
                 [DetectSingleFace img (options w)]\<rparr>)"
proof (induction pre arbitrary: det s)
  case Nil
  then show ?case
    by (cases "detectSingleFace E img (options w)")
       (simp_all add: attempt_ok_def Date_now_def emit_def)
next
  case (Cons st pre)
  from Cons.prems have rest: "\<forall>st\<in>set pre. \<not> attempt_ok E img st" by simp
  show ?case
  proof (cases "detectSingleFace E img (options st)")
    case (Returns d)
    with Cons.prems have nd: "\<not> accepted d" by (simp add: attempt_ok_def)
    show ?thesis
      using Cons.IH[OF rest Cons.prems(2)] Returns nd
      by (simp add: Date_now_def emit_def attempt_events_def)
  next
    case (Throws m)
    show ?thesis
      using Cons.IH[OF rest Cons.prems(2)] Throws
      by (simp add: Date_now_def emit_def attempt_events_def)
  qed
qed


lemma not_accepted_response:
  "\<not> accepted det \<Longrightarrow>
   (case det of
      None \<Rightarrow> json (failure_response strategies T)
    | Some d \<Rightarrow>
        (case descriptor d of
           None \<Rightarrow> json (failure_response strategies T)
         | Some desc \<Rightarrow> json (success_response d desc T used)))
   = json (failure_response strategies T)"
  by (cases det) (auto split: option.splits)

lemma handler_exhausted:
  assumes "modelsLoaded srv" "image req = Some payload" "truthy payload"
    "loadImage E payload = Returns img"
    "\<forall>st\<in>set strategies. \<not> attempt_ok E img st"
  shows "extract_embedding_with strategies E srv req s =
     (json (failure_response strategies
              (now E (ticks s + length strategies + 1) - now E (ticks s))),
      s\<lparr>ticks := ticks s + length strategies + 2,
        trace := trace s @ LoadImage payload # concat (map (attempt_events E img) strategies)\<rparr>)"
proof -
  have na: "\<not> accepted None" by simp
  note ex = try_strategies_exhausted[OF assms(5) na,
      of "emit (LoadImage payload) (snd (Date_now E s))"]
  from ex have nd: "\<not> accepted (fst (try_strategies E img strategies None
      (emit (LoadImage payload) (snd (Date_now E s)))))" by blast
  from ex have s3: "snd (snd (try_strategies E img strategies None
      (emit (LoadImage payload) (snd (Date_now E s))))) =
      (emit (LoadImage payload) (snd (Date_now E s)))
        \<lparr>ticks := ticks (emit (LoadImage payload) (snd (Date_now E s))) + length strategies,
         trace := trace (emit (LoadImage payload) (snd (Date_now E s))) @
                  concat (map (attempt_events E img) strategies)\<rparr>" by blast
  show ?thesis
    using assms(1-4)
    by (simp add: extract_embedding_with_def Let_def split_def
                  not_accepted_response[OF nd] s3)
       (simp add: Date_now_def emit_def)
qed

lemma handler_stops:
  assumes "modelsLoaded srv" "image req = Some payload" "truthy payload"
    "loadImage E payload = Returns img"
    "strategies = pre @ w # post"
    "\<forall>st\<in>set pre. \<not> attempt_ok E img st"
    "detectSingleFace E img (options w) = Returns (Some d)"
    "descriptor d = Some desc"
  shows "extract_embedding_with strategies E srv req s =
     (json (success_response d desc
              (now E (ticks s + length pre + 3) - now E (ticks s)) (Some (name w))),
      s\<lparr>ticks := ticks s + length pre + 4,
        trace := trace s @ LoadImage payload # concat (map (attempt_events E img) pre) @
                 [DetectSingleFace img (options w)]\<rparr>)"
proof -
  have ok: "attempt_ok E img w"
    using assms(7,8) by (simp add: attempt_ok_def)
  show ?thesis
    using assms(1-4,7,8)
    by (simp add: extract_embedding_with_def Let_def split_def assms(5)
                  try_strategies_stops[OF assms(6) ok] Date_now_def emit_def
                  numeral_3_eq_3)
qed

section \<open>Readiness\<close>

text \<open>
  C8. While the readiness flag is false, both routes answer HTTP 503 with the loading
  progress as it stands, and return the state they were given: the clock is not read,
  nothing is decoded and the engine is not called.
\<close>

theorem not_ready_rejected:
  assumes "\<not> modelsLoaded srv"
  shows "extract_embedding E srv req s =
           (\<lparr>status = 503,
             body = JObj [(''success'', JBool False),
                          (''error'', JStr ''Models not loaded yet''),
                          (''progress'', loadingProgress srv)]\<rparr>, s) \<and>
         batch_extract E srv req s =
           (\<lparr>status = 503,
             body = JObj [(''error'', JStr ''Models not loaded yet''),
                          (''progress'', loadingProgress srv)]\<rparr>, s) \<and>
         load_calls (trace (snd (extract_embedding E srv req s))) = load_calls (trace s) \<and>
         detect_calls (trace (snd (extract_embedding E srv req s))) = detect_calls (trace s) \<and>
         load_calls (trace (snd (batch_extract E srv req s))) = load_calls (trace s) \<and>
         detect_calls (trace (snd (batch_extract E srv req s))) = detect_calls (trace s)"
  using assms
  by (simp add: extract_embedding_def extract_embedding_with_def batch_extract_def
                status_json_def)

theorem not_ready_rejected_witness:
  "\<not> modelsLoaded loading \<and>
   status (fst (extract_embedding (sample_env engine_medium) loading (single ''AAAA'') s0)) = 503 \<and>
   field (body (fst (extract_embedding (sample_env engine_medium) loading (single ''AAAA'') s0)))
     ''progress'' = Some (JObj [(''TinyFaceDetector'', JStr ''loaded''),
                                (''FaceLandmark68Net'', JStr ''loaded'')]) \<and>
   status (fst (batch_extract (sample_env engine_medium) loading (batch [JStr ''AAAA'']) s0)) = 503 \<and>
   trace (snd (extract_embedding (sample_env engine_medium) loading (single ''AAAA'') s0)) = [] \<and>
   trace (snd (batch_extract (sample_env engine_medium) loading (batch [JStr ''AAAA'']) s0)) = []"
proof -
  have h: "\<not> modelsLoaded loading" by (simp add: loading_def)
  show ?thesis
    using h not_ready_rejected[OF h, of "sample_env engine_medium" "single ''AAAA''" s0]
          not_ready_rejected[OF h, of "sample_env engine_medium" "batch [JStr ''AAAA'']" s0]
    by (simp add: loading_def s0_def)
qed

section \<open>The default strategies\<close>

text \<open>
  C4. The single-image route runs on exactly four strategies, in this order: the tiny
  detector at input size 416 with score threshold 0.3, at 320 with 0.4, at 224 with 0.5,
  and last the SSD detector with minimum confidence 0.3.
\<close>

theorem default_strategies:
  "length detectionStrategies = 4 \<and>
   map name detectionStrategies =
     [''TinyFaceDetector_High'', ''TinyFaceDetector_Medium'', ''TinyFaceDetector_Low'',
      ''SsdMobilenetv1''] \<and>
   map options detectionStrategies =
     [TinyFaceDetectorOptions 416 0.3, TinyFaceDetectorOptions 320 0.4,
      TinyFaceDetectorOptions 224 0.5, SsdMobilenetv1Options 0.3] \<and>
   extract_embedding E srv req s = extract_embedding_with detectionStrategies E srv req s"
  by (simp add: detectionStrategies_def extract_embedding_def)

section \<open>The empty batch\<close>

text \<open>
  C1. On the empty array the batch route answers with no results and a summary whose
  three counts are 0. The average is \<^verbatim>\<open>Math.round(totalTime / 0)\<close>: it is \<^verbatim>\<open>NaN\<close>
  when the two clock readings agree and an infinity otherwise, never the number 0.
\<close>

theorem empty_batch_average:
  "batch_extract E \<lparr>modelsLoaded = True, loadingProgress = p\<rparr>
       \<lparr>image = im, images = Some (JArr [])\<rparr> s =
     (\<lparr>status = 200,
       body = JObj [(''results'', JArr []),
                    (''summary'',
                       JObj [(''total'', JNum (Num 0)),
                             (''successful'', JNum (Num 0)),
                             (''failed'', JNum (Num 0)),
                             (''totalTime'',
                                JNum (Num (of_int (now E (ticks s + 1) - now E (ticks s))))),
                             (''averageTime'',
                                JNum (if now E (ticks s + 1) = now E (ticks s) then NaN
                                      else if now E (ticks s) < now E (ticks s + 1) then Infinity
                                      else NegInfinity))])]\<rparr>,
      s\<lparr>ticks := ticks s + 2\<rparr>)"
  by (simp add: batch_extract_def batch_loop.simps Date_now_def json_def batch_summary_def
                num_def js_divide_def)

theorem empty_batch_average_witness:
  "fst (batch_extract (sample_env engine_none) ready (batch []) s0) =
     \<lparr>status = 200,
      body = JObj [(''results'', JArr []),
                   (''summary'',
                      JObj [(''total'', JNum (Num 0)),
                            (''successful'', JNum (Num 0)),
                            (''failed'', JNum (Num 0)),
                            (''totalTime'', JNum (Num 7)),
                            (''averageTime'', JNum Infinity)])]\<rparr>"
  using empty_batch_average[of "sample_env engine_none" "loadingProgress ready" None s0]
  by (simp add: ready_def batch_def s0_def sample_env_def)

section \<open>The single-image route\<close>

lemma detect_calls_append [simp]: "detect_calls (es @ fs) = detect_calls es @ detect_calls fs"
  by (induction es rule: detect_calls.induct) simp_all

lemma load_calls_append [simp]: "load_calls (es @ fs) = load_calls es @ load_calls fs"
  by (induction es rule: load_calls.induct) simp_all

lemma detect_calls_attempts [simp]:
  "detect_calls (concat (map (attempt_events E img) sts)) = map (\<lambda>st. (img, options st)) sts"
  by (induction sts) (auto simp: attempt_events_def split: outcome.splits)

lemma load_calls_attempts [simp]:
  "load_calls (concat (map (attempt_events E img) sts)) = []"
  by (induction sts) (auto simp: attempt_events_def split: outcome.splits)

lemma detect_calls_map [simp]:
  "detect_calls (map (\<lambda>st. DetectSingleFace img (options st)) sts) =
     map (\<lambda>st. (img, options st)) sts"
  by (induction sts) simp_all

lemma load_calls_map [simp]:
  "load_calls (map (\<lambda>st. DetectSingleFace img (options st)) sts) = []"
  by (induction sts) simp_all

lemma attempt_ok_cases:
  "attempt_ok E img w \<Longrightarrow>
   \<exists>d desc. detectSingleFace E img (options w) = Returns (Some d) \<and> descriptor d = Some desc"
  by (cases "detectSingleFace E img (options w)")
     (auto simp: attempt_ok_def elim: accepted.elims)

lemma dropWhile_Nil_fails:
  "dropWhile (attempt_fails E img) sts = [] \<Longrightarrow> \<forall>st\<in>set sts. \<not> attempt_ok E img st"
  by (simp add: attempt_fails_def)

lemma dropWhile_Cons_split:
  assumes "dropWhile (attempt_fails E img) sts = w # post"
  shows "sts = takeWhile (attempt_fails E img) sts @ w # post"
    and "\<forall>st\<in>set (takeWhile (attempt_fails E img) sts). \<not> attempt_ok E img st"
    and "attempt_ok E img w"
proof -
  show "sts = takeWhile (attempt_fails E img) sts @ w # post"
    using assms takeWhile_dropWhile_id[of "attempt_fails E img" sts] by simp
  show "\<forall>st\<in>set (takeWhile (attempt_fails E img) sts). \<not> attempt_ok E img st"
    using set_takeWhileD[of _ "attempt_fails E img" sts] by (auto simp: attempt_fails_def)
  have "\<not> attempt_fails E img (hd (dropWhile (attempt_fails E img) sts))"
    using assms hd_dropWhile[of "attempt_fails E img" sts] by simp
  then show "attempt_ok E img w"
    using assms by (simp add: attempt_fails_def)
qed

lemma handler_trace:
  assumes "modelsLoaded srv" "image req = Some payload" "truthy payload"
    "loadImage E payload = Returns img"
  shows "trace (snd (extract_embedding_with strategies E srv req s)) =
           trace s @ LoadImage payload #
             concat (map (attempt_events E img) (takeWhile (attempt_fails E img) strategies)) @
             map (\<lambda>st. DetectSingleFace img (options st))
               (take 1 (dropWhile (attempt_fails E img) strategies))"
proof (cases "dropWhile (attempt_fails E img) strategies")
  case Nil
  then have tw: "takeWhile (attempt_fails E img) strategies = strategies"
    by simp
  show ?thesis
    using handler_exhausted[OF assms dropWhile_Nil_fails[OF Nil], of s] Nil
    by (simp add: tw)
next
  case (Cons w post)
  note sp = dropWhile_Cons_split[OF Cons]
  from attempt_ok_cases[OF sp(3)] obtain d desc where
    d: "detectSingleFace E img (options w) = Returns (Some d)" "descriptor d = Some desc"
    by blast
  show ?thesis
    using handler_stops[OF assms sp(1) sp(2) d, of s] Cons by simp
qed

lemma handler_winner:
  assumes "modelsLoaded srv" "image req = Some payload" "truthy payload"
    "loadImage E payload = Returns img"
    "dropWhile (attempt_fails E img) strategies = w # post"
  shows "\<exists>d desc T. detectSingleFace E img (options w) = Returns (Some d) \<and>
           descriptor d = Some desc \<and>
           fst (extract_embedding_with strategies E srv req s) =
             json (success_response d desc T (Some (name w)))"
proof -
  note sp = dropWhile_Cons_split[OF assms(5)]
  from attempt_ok_cases[OF sp(3)] obtain d desc where
    d: "detectSingleFace E img (options w) = Returns (Some d)" "descriptor d = Some desc"
    by blast
  show ?thesis
    using handler_stops[OF assms(1-4) sp(1) sp(2) d, of s] d by auto
qed

lemma handler_loser:
  assumes "modelsLoaded srv" "image req = Some payload" "truthy payload"
    "loadImage E payload = Returns img"
    "dropWhile (attempt_fails E img) strategies = []"
  shows "\<exists>T. fst (extract_embedding_with strategies E srv req s) =
           json (failure_response strategies T)"
  using handler_exhausted[OF assms(1-4) dropWhile_Nil_fails[OF assms(5)], of s] by auto

text \<open>
  C3. When the models are loaded, the image decodes and no strategy's attempt gives a
  detection carrying a descriptor (each one rejects, resolves to no detection, or to a
  detection without descriptor), the route answers HTTP 200 with \<open>success = false\<close>, the
  error text \<^verbatim>\<open>No face detected with any strategy\<close> and, as \<open>strategiesTried\<close>, the
  names of all the strategies in their order; every strategy has been attempted. Under the
  default list these are the four names of the source.
\<close>

theorem no_detection_response:
  assumes "modelsLoaded srv" "image req = Some payload" "truthy payload"
    "loadImage E payload = Returns img"
    "\<forall>st\<in>set strategies. attempt_fails E img st"
  shows "status (fst (extract_embedding_with strategies E srv req s)) = 200 \<and>
         body (fst (extract_embedding_with strategies E srv req s)) =
           JObj [(''success'', JBool False),
                 (''error'', JStr ''No face detected with any strategy''),
                 (''inferenceTime'',
                    JNum (Num (of_int (now E (ticks s + length strategies + 1) - now E (ticks s))))),
                 (''strategiesTried'', JArr (map (\<lambda>st. JStr (name st)) strategies))] \<and>
         detect_calls (trace (snd (extract_embedding_with strategies E srv req s))) =
           detect_calls (trace s) @ map (\<lambda>st. (img, options st)) strategies \<and>
         (strategies = detectionStrategies \<longrightarrow>
            field (body (fst (extract_embedding E srv req s))) ''strategiesTried'' =
              Some (JArr [JStr ''TinyFaceDetector_High'', JStr ''TinyFaceDetector_Medium'',
                          JStr ''TinyFaceDetector_Low'', JStr ''SsdMobilenetv1'']))"
proof -
  from assms(5) have f: "\<forall>st\<in>set strategies. \<not> attempt_ok E img st"
    by (simp add: attempt_fails_def)
  note h = handler_exhausted[OF assms(1-4) f, of s]
  have a: "status (fst (extract_embedding_with strategies E srv req s)) = 200"
    by (simp add: h json_def)
  have b: "body (fst (extract_embedding_with strategies E srv req s)) =
           JObj [(''success'', JBool False),
                 (''error'', JStr ''No face detected with any strategy''),
                 (''inferenceTime'',
                    JNum (Num (of_int (now E (ticks s + length strategies + 1) - now E (ticks s))))),
                 (''strategiesTried'', JArr (map (\<lambda>st. JStr (name st)) strategies))]"
    by (simp add: h json_def failure_response_def num_def)
  have c: "detect_calls (trace (snd (extract_embedding_with strategies E srv req s))) =
           detect_calls (trace s) @ map (\<lambda>st. (img, options st)) strategies"
    by (simp add: h)
  have d: "strategies = detectionStrategies \<longrightarrow>
            field (body (fst (extract_embedding E srv req s))) ''strategiesTried'' =
              Some (JArr [JStr ''TinyFaceDetector_High'', JStr ''TinyFaceDetector_Medium'',
                          JStr ''TinyFaceDetector_Low'', JStr ''SsdMobilenetv1''])"
  proof
    assume e: "strategies = detectionStrategies"
    have "body (fst (extract_embedding E srv req s)) =
            body (fst (extract_embedding_with strategies E srv req s))"
      by (simp add: e extract_embedding_def)
    then show "field (body (fst (extract_embedding E srv req s))) ''strategiesTried'' =
              Some (JArr [JStr ''TinyFaceDetector_High'', JStr ''TinyFaceDetector_Medium'',
                          JStr ''TinyFaceDetector_Low'', JStr ''SsdMobilenetv1''])"
      by (simp add: b) (simp add: e detectionStrategies_def)
  qed
  from a b c d show ?thesis by blast
qed

theorem no_detection_response_witness:
  "modelsLoaded ready \<and> image (single ''AAAA'') = Some (JStr ''AAAA'') \<and> truthy (JStr ''AAAA'') \<and>
   loadImage (sample_env engine_none) (JStr ''AAAA'') = Returns 4 \<and>
   list_all (attempt_fails (sample_env engine_none) 4) detectionStrategies \<and>
   fst (extract_embedding (sample_env engine_none) ready (single ''AAAA'') s0) =
     \<lparr>status = 200,
      body = JObj [(''success'', JBool False),
                   (''error'', JStr ''No face detected with any strategy''),
                   (''inferenceTime'', JNum (Num 35)),
                   (''strategiesTried'',
                      JArr [JStr ''TinyFaceDetector_High'', JStr ''TinyFaceDetector_Medium'',
                            JStr ''TinyFaceDetector_Low'', JStr ''SsdMobilenetv1''])]\<rparr>"
proof -
  have h1: "modelsLoaded ready" by (simp add: ready_def)
  have h2: "image (single ''AAAA'') = Some (JStr ''AAAA'')" by (simp add: single_def)
  have h3: "truthy (JStr ''AAAA'')" by simp
  have h4: "loadImage (sample_env engine_none) (JStr ''AAAA'') = Returns 4"
    by (simp add: sample_env_def)
  have h5: "\<forall>st\<in>set detectionStrategies. attempt_fails (sample_env engine_none) 4 st"
    by (simp add: attempt_fails_def attempt_ok_def sample_env_def engine_none_def)
  have r: "fst (extract_embedding (sample_env engine_none) ready (single ''AAAA'') s0) =
     \<lparr>status = 200,
      body = JObj [(''success'', JBool False),
                   (''error'', JStr ''No face detected with any strategy''),
                   (''inferenceTime'', JNum (Num 35)),
                   (''strategiesTried'',
                      JArr [JStr ''TinyFaceDetector_High'', JStr ''TinyFaceDetector_Medium'',
                            JStr ''TinyFaceDetector_Low'', JStr ''SsdMobilenetv1''])]\<rparr>"
    using no_detection_response[OF h1 h2 h3 h4 h5, of s0]
    by (cases "fst (extract_embedding (sample_env engine_none) ready (single ''AAAA'') s0)")
       (simp add: extract_embedding_def detectionStrategies_def sample_env_def s0_def)
  from h1 h2 h3 h4 h5 r show ?thesis by (simp add: list_all_iff)
qed

text \<open>
  The two readings of a usable attempt differ on descriptors of length zero only.
\<close>

lemma nonempty_descriptor_ok: "nonempty_descriptor E img st \<Longrightarrow> attempt_ok E img st"
  by (auto simp: nonempty_descriptor_def attempt_ok_def
           split: outcome.splits option.splits list.splits)

lemma attempt_ok_nonempty:
  assumes "attempt_ok E img st"
    and "\<And>d. detectSingleFace E img (options st) = Returns (Some d) \<Longrightarrow> descriptor d \<noteq> Some []"
  shows "nonempty_descriptor E img st"
proof -
  from attempt_ok_cases[OF assms(1)] obtain d desc where
    d: "detectSingleFace E img (options st) = Returns (Some d)" "descriptor d = Some desc"
    by blast
  with assms(2)[OF d(1)] have "desc \<noteq> []" by auto
  with d show ?thesis
    by (cases desc) (simp_all add: nonempty_descriptor_def)
qed




text \<open>
  C7. When the engine rejects on a strategy \<open>t\<close> that the loop reaches, a warning with
  \<open>t\<close>'s name and the error message is logged right after the call, and the loop goes on
  with the strategies after \<open>t\<close> exactly as it would otherwise; the request is answered
  with HTTP 200. In particular, if a later strategy is the first to give an accepted
  detection, the answer is a success with that strategy's name.
\<close>

theorem rejected_attempt_continues:
  assumes "modelsLoaded srv" "image req = Some payload" "truthy payload"
    "loadImage E payload = Returns img"
    "strategies = pre @ t # rest"
    "\<forall>st\<in>set pre. attempt_fails E img st"
    "detectSingleFace E img (options t) = Throws msg"
  shows "status (fst (extract_embedding_with strategies E srv req s)) = 200 \<and>
         trace (snd (extract_embedding_with strategies E srv req s)) =
           trace s @ LoadImage payload # concat (map (attempt_events E img) pre) @
           [DetectSingleFace img (options t), ConsoleWarn (name t) msg] @
           concat (map (attempt_events E img) (takeWhile (attempt_fails E img) rest)) @
           map (\<lambda>st. DetectSingleFace img (options st))
             (take 1 (dropWhile (attempt_fails E img) rest)) \<and>
         (case dropWhile (attempt_fails E img) rest of
            [] \<Rightarrow>
              field (body (fst (extract_embedding_with strategies E srv req s))) ''success'' =
                Some (JBool False)
          | w # post \<Rightarrow>
              field (body (fst (extract_embedding_with strategies E srv req s))) ''success'' =
                Some (JBool True) \<and>
              field (body (fst (extract_embedding_with strategies E srv req s))) ''strategy'' =
                Some (JStr (name w)))"
proof -
  have ft: "attempt_fails E img t"
    using assms(7) by (simp add: attempt_fails_def attempt_ok_def)
  have tw: "takeWhile (attempt_fails E img) strategies =
              pre @ t # takeWhile (attempt_fails E img) rest"
    using assms(6) ft by (simp add: assms(5))
  have dw: "dropWhile (attempt_fails E img) strategies = dropWhile (attempt_fails E img) rest"
    using assms(6) ft by (simp add: assms(5))
  have ev: "attempt_events E img t = [DetectSingleFace img (options t), ConsoleWarn (name t) msg]"
    using assms(7) by (simp add: attempt_events_def)
  have tr: "trace (snd (extract_embedding_with strategies E srv req s)) =
           trace s @ LoadImage payload # concat (map (attempt_events E img) pre) @
           [DetectSingleFace img (options t), ConsoleWarn (name t) msg] @
           concat (map (attempt_events E img) (takeWhile (attempt_fails E img) rest)) @
           map (\<lambda>st. DetectSingleFace img (options st))
             (take 1 (dropWhile (attempt_fails E img) rest))"
    by (simp add: handler_trace[OF assms(1-4)] tw dw ev)
  have re: "status (fst (extract_embedding_with strategies E srv req s)) = 200 \<and>
         (case dropWhile (attempt_fails E img) rest of
            [] \<Rightarrow>
              field (body (fst (extract_embedding_with strategies E srv req s))) ''success'' =
                Some (JBool False)
          | w # post \<Rightarrow>
              field (body (fst (extract_embedding_with strategies E srv req s))) ''success'' =
                Some (JBool True) \<and>
              field (body (fst (extract_embedding_with strategies E srv req s))) ''strategy'' =
                Some (JStr (name w)))"
  proof (cases "dropWhile (attempt_fails E img) rest")
    case Nil
    from handler_loser[OF assms(1-4), of strategies s] dw Nil obtain T where
      r: "fst (extract_embedding_with strategies E srv req s) = json (failure_response strategies T)"
      by auto
    have "status (fst (extract_embedding_with strategies E srv req s)) = 200"
      and "field (body (fst (extract_embedding_with strategies E srv req s))) ''success'' =
             Some (JBool False)"
      by (simp_all add: r json_def failure_response_def)
    then show ?thesis
      unfolding Nil by simp
  next
    case (Cons w post)
    from Cons dw have "dropWhile (attempt_fails E img) strategies = w # post" by simp
    from handler_winner[OF assms(1-4) this, of s] obtain d desc T where
      r: "fst (extract_embedding_with strategies E srv req s) =
           json (success_response d desc T (Some (name w)))"
      by blast
    have "status (fst (extract_embedding_with strategies E srv req s)) = 200"
      and "field (body (fst (extract_embedding_with strategies E srv req s))) ''success'' =
             Some (JBool True)"
      and "field (body (fst (extract_embedding_with strategies E srv req s))) ''strategy'' =
             Some (JStr (name w))"
      by (simp_all add: r json_def success_response_def)
    then show ?thesis
      unfolding Cons by simp
  qed
  from tr re show ?thesis by blast
qed

theorem rejected_attempt_continues_witness:
  "modelsLoaded ready \<and> image (single ''AAAA'') = Some (JStr ''AAAA'') \<and> truthy (JStr ''AAAA'') \<and>
   loadImage (sample_env engine_flaky) (JStr ''AAAA'') = Returns 4 \<and>
   detectionStrategies =
     [\<lparr>name = ''TinyFaceDetector_High'', options = TinyFaceDetectorOptions 416 0.3\<rparr>] @
     \<lparr>name = ''TinyFaceDetector_Medium'', options = TinyFaceDetectorOptions 320 0.4\<rparr> #
     [\<lparr>name = ''TinyFaceDetector_Low'', options = TinyFaceDetectorOptions 224 0.5\<rparr>,
      \<lparr>name = ''SsdMobilenetv1'', options = SsdMobilenetv1Options 0.3\<rparr>] \<and>
   attempt_fails (sample_env engine_flaky) 4
     \<lparr>name = ''TinyFaceDetector_High'', options = TinyFaceDetectorOptions 416 0.3\<rparr> \<and>
   detectSingleFace (sample_env engine_flaky) 4 (TinyFaceDetectorOptions 320 0.4) =
     Throws ''backend failure'' \<and>
   status (fst (extract_embedding (sample_env engine_flaky) ready (single ''AAAA'') s0)) = 200 \<and>
   trace (snd (extract_embedding (sample_env engine_flaky) ready (single ''AAAA'') s0)) =
     [LoadImage (JStr ''AAAA''),
      DetectSingleFace 4 (TinyFaceDetectorOptions 416 0.3),
      DetectSingleFace 4 (TinyFaceDetectorOptions 320 0.4),
      ConsoleWarn ''TinyFaceDetector_Medium'' ''backend failure'',
      DetectSingleFace 4 (TinyFaceDetectorOptions 224 0.5)] \<and>
   field (body (fst (extract_embedding (sample_env engine_flaky) ready (single ''AAAA'') s0)))
     ''success'' = Some (JBool True) \<and>
   field (body (fst (extract_embedding (sample_env engine_flaky) ready (single ''AAAA'') s0)))
     ''strategy'' = Some (JStr ''TinyFaceDetector_Low'')"
proof -
  let ?E = "sample_env engine_flaky"
  let ?hi = "\<lparr>name = ''TinyFaceDetector_High'', options = TinyFaceDetectorOptions 416 0.3\<rparr>"
  let ?t = "\<lparr>name = ''TinyFaceDetector_Medium'', options = TinyFaceDetectorOptions 320 0.4\<rparr>"
  let ?rest = "[\<lparr>name = ''TinyFaceDetector_Low'', options = TinyFaceDetectorOptions 224 0.5\<rparr>,
      \<lparr>name = ''SsdMobilenetv1'', options = SsdMobilenetv1Options 0.3\<rparr>]"
  have h1: "modelsLoaded ready" by (simp add: ready_def)
  have h2: "image (single ''AAAA'') = Some (JStr ''AAAA'')" by (simp add: single_def)
  have h3: "truthy (JStr ''AAAA'')" by simp
  have h4: "loadImage ?E (JStr ''AAAA'') = Returns 4"
    by (simp add: sample_env_def)
  have h5: "detectionStrategies = [?hi] @ ?t # ?rest"
    by (simp add: detectionStrategies_def)
  have f: "attempt_fails ?E 4 ?hi"
    by (simp add: attempt_fails_def attempt_ok_def sample_env_def engine_flaky_def)
  then have h6: "\<forall>st\<in>set [?hi]. attempt_fails ?E 4 st" by simp
  have h7: "detectSingleFace ?E 4 (options ?t) = Throws ''backend failure''"
    by (simp add: sample_env_def engine_flaky_def)
  note r = rejected_attempt_continues[OF h1 h2 h3 h4 h5 h6 h7, of s0]
  from r have a: "status (fst (extract_embedding ?E ready (single ''AAAA'') s0)) = 200"
    by (simp add: extract_embedding_def)
  from r have b: "trace (snd (extract_embedding ?E ready (single ''AAAA'') s0)) =
     [LoadImage (JStr ''AAAA''),
      DetectSingleFace 4 (TinyFaceDetectorOptions 416 0.3),
      DetectSingleFace 4 (TinyFaceDetectorOptions 320 0.4),
      ConsoleWarn ''TinyFaceDetector_Medium'' ''backend failure'',
      DetectSingleFace 4 (TinyFaceDetectorOptions 224 0.5)]"
    by (simp add: extract_embedding_def s0_def attempt_fails_def attempt_ok_def
                  attempt_events_def sample_env_def engine_flaky_def face_def)
  from r have c: "field (body (fst (extract_embedding ?E ready (single ''AAAA'') s0)))
       ''success'' = Some (JBool True) \<and>
     field (body (fst (extract_embedding ?E ready (single ''AAAA'') s0)))
       ''strategy'' = Some (JStr ''TinyFaceDetector_Low'')"
    by (simp add: extract_embedding_def attempt_fails_def attempt_ok_def
                  sample_env_def engine_flaky_def face_def)
  from h1 h2 h3 h4 h5 f h7 a b c show ?thesis by simp
qed

section \<open>The batch route\<close>

lemma process_item_eq:
  "process_item E payload i s =
     (item_of E payload i (now E (ticks s + 1) - now E (ticks s)),
      s\<lparr>ticks := ticks s + 2, trace := trace s @ item_events E payload\<rparr>)"
  by (simp add: process_item_def item_of_def item_events_def Date_now_def emit_def
           split: outcome.splits option.splits)

lemma items_from_step:
  assumes "i < length imgs"
  shows "items_from E imgs k i =
           item_of E (imgs ! i) i (now E (k + 1) - now E k) # items_from E imgs (k + 2) (i + 1)"
proof -
  have "map (\<lambda>j. item_of E (imgs ! j) j (now E (k + 2 * (j - i) + 1) - now E (k + 2 * (j - i))))
          [Suc i..<length imgs] =
        map (\<lambda>j. item_of E (imgs ! j) j
               (now E (k + 2 + 2 * (j - (i + 1)) + 1) - now E (k + 2 + 2 * (j - (i + 1)))))
          [Suc i..<length imgs]"
  proof (rule map_cong[OF refl])
    fix j assume "j \<in> set [Suc i..<length imgs]"
    then have "k + 2 * (j - i) = k + 2 + 2 * (j - (i + 1))" by auto
    then show "item_of E (imgs ! j) j (now E (k + 2 * (j - i) + 1) - now E (k + 2 * (j - i))) =
        item_of E (imgs ! j) j
          (now E (k + 2 + 2 * (j - (i + 1)) + 1) - now E (k + 2 + 2 * (j - (i + 1))))"
      by simp
  qed
  then show ?thesis
    using assms by (simp add: items_from_def upt_conv_Cons)
qed

lemma batch_loop_eq:
  "batch_loop E imgs i results s =
     (results @ items_from E imgs (ticks s) i,
      s\<lparr>ticks := ticks s + 2 * (length imgs - i),
        trace := trace s @ concat (map (item_events E) (drop i imgs))\<rparr>)"
proof (induction E imgs i results s rule: batch_loop.induct)
  case (1 E imgs i results s)
  show ?case
  proof (cases "i < length imgs")
    case True
    note p = process_item_eq[of E "imgs ! i" i s]
    have d: "drop i imgs = imgs ! i # drop (i + 1) imgs"
      using True by (simp add: Cons_nth_drop_Suc)
    have t: "ticks s + 2 + 2 * (length imgs - (i + 1)) = ticks s + 2 * (length imgs - i)"
      using True by simp
    show ?thesis
      using "1.IH"[OF True p[symmetric]] True
      by (subst batch_loop.simps) (simp add: p items_from_step[OF True] d t)
  next
    case False
    then show ?thesis
      by (subst batch_loop.simps) (simp add: items_from_def)
  qed
qed

lemma batch_extract_eq:
  assumes "modelsLoaded srv" "images req = Some (JArr imgs)"
  shows "batch_extract E srv req s =
     (json (JObj [(''results'', JArr (items_from E imgs (ticks s + 1) 0)),
                  (''summary'',
                     batch_summary (length imgs)
                       (length (filter item_success (items_from E imgs (ticks s + 1) 0)))
                       (now E (ticks s + 2 * length imgs + 1) - now E (ticks s)))]),
      s\<lparr>ticks := ticks s + 2 * length imgs + 2,
        trace := trace s @ concat (map (item_events E) imgs)\<rparr>)"
  using assms
  by (simp add: batch_extract_def batch_loop_eq Date_now_def)

lemma length_items_from [simp]: "length (items_from E imgs k 0) = length imgs"
  by (simp add: items_from_def)

lemma nth_items_from:
  "i < length imgs \<Longrightarrow>
   items_from E imgs k 0 ! i =
     item_of E (imgs ! i) i (now E (k + 2 * i + 1) - now E (k + 2 * i))"
  by (simp add: items_from_def)


lemma item_index: "field (item_of E p i t) ''index'' = Some (JNum (Num (real i)))"
  by (simp add: item_of_def failed_item_def num_def split: outcome.splits option.splits)

lemma item_decode_throws:
  "loadImage E p = Throws msg \<Longrightarrow> item_of E p i t = failed_item i t msg"
  by (simp add: item_of_def)

lemma item_detect_throws:
  "loadImage E p = Returns img \<Longrightarrow>
   detectSingleFace E img (TinyFaceDetectorOptions 416 0.3) = Throws msg \<Longrightarrow>
   item_of E p i t = failed_item i t msg"
  by (simp add: item_of_def)

lemma item_not_accepted:
  "loadImage E p = Returns img \<Longrightarrow>
   detectSingleFace E img (TinyFaceDetectorOptions 416 0.3) = Returns det \<Longrightarrow>
   \<not> accepted det \<Longrightarrow>
   item_of E p i t = failed_item i t ''No face detected''"
  by (cases det) (auto simp: item_of_def split: option.splits)

lemma item_accepted:
  "loadImage E p = Returns img \<Longrightarrow>
   detectSingleFace E img (TinyFaceDetectorOptions 416 0.3) = Returns (Some d) \<Longrightarrow>
   descriptor d = Some desc \<Longrightarrow>
   item_of E p i t =
     JObj [(''index'', num (of_nat i)),
           (''success'', JBool True),
           (''embedding'', JArr (map num desc)),
           (''inferenceTime'', num (of_int t)),
           (''confidence'', confidence_of d)]"
  by (simp add: item_of_def)

lemma failed_item_fields:
  "field (failed_item i t msg) ''success'' = Some (JBool False)"
  "field (failed_item i t msg) ''error'' = Some (JStr msg)"
  by (simp_all add: failed_item_def)

lemma detect_calls_items:
  "detect_calls (concat (map (item_events E) imgs)) =
     map (\<lambda>img. (img, TinyFaceDetectorOptions 416 0.3)) (decoded E imgs)"
  by (induction imgs) (auto simp: item_events_def decoded_def split: outcome.splits)

lemma load_calls_items: "load_calls (concat (map (item_events E) imgs)) = imgs"
  by (induction imgs) (auto simp: item_events_def split: outcome.splits)

lemma batch_results:
  assumes "modelsLoaded srv" "images req = Some (JArr imgs)"
  shows "status (fst (batch_extract E srv req s)) = 200"
    and "field (body (fst (batch_extract E srv req s))) ''results'' =
           Some (JArr (items_from E imgs (ticks s + 1) 0))"
    and "field (body (fst (batch_extract E srv req s))) ''summary'' =
           Some (batch_summary (length imgs)
                   (length (filter item_success (items_from E imgs (ticks s + 1) 0)))
                   (now E (ticks s + 2 * length imgs + 1) - now E (ticks s)))"
  by (simp_all add: batch_extract_eq[OF assms] json_def)

lemma sample_batch_response:
  "fst (batch_extract (sample_env engine_by_image) ready (batch sample_batch) s0) =
     \<lparr>status = 200,
      body = JObj
        [(''results'',
            JArr [JObj [(''index'', JNum (Num 0)), (''success'', JBool True),
                        (''embedding'', JArr [JNum (Num 0.1), JNum (Num 0.2)]),
                        (''inferenceTime'', JNum (Num 7)), (''confidence'', JNum (Num 0.9))],
                  JObj [(''index'', JNum (Num 1)), (''success'', JBool False),
                        (''inferenceTime'', JNum (Num 7)),
                        (''error'', JStr ''Unsupported image type'')],
                  JObj [(''index'', JNum (Num 2)), (''success'', JBool False),
                        (''inferenceTime'', JNum (Num 7)), (''error'', JStr ''No face detected'')],
                  JObj [(''index'', JNum (Num 3)), (''success'', JBool False),
                        (''inferenceTime'', JNum (Num 7)),
                        (''error'', JStr ''inference failed'')]]),
         (''summary'',
            JObj [(''total'', JNum (Num 4)), (''successful'', JNum (Num 1)),
                  (''failed'', JNum (Num 3)), (''totalTime'', JNum (Num 63)),
                  (''averageTime'', JNum (Num 16))])]\<rparr>"
proof -
  have h1: "modelsLoaded ready" by (simp add: ready_def)
  have h2: "images (batch sample_batch) = Some (JArr sample_batch)" by (simp add: batch_def)
  have items: "items_from (sample_env engine_by_image) sample_batch (ticks s0 + 1) 0 =
     [JObj [(''index'', JNum (Num 0)), (''success'', JBool True),
                        (''embedding'', JArr [JNum (Num 0.1), JNum (Num 0.2)]),
                        (''inferenceTime'', JNum (Num 7)), (''confidence'', JNum (Num 0.9))],
                  JObj [(''index'', JNum (Num 1)), (''success'', JBool False),
                        (''inferenceTime'', JNum (Num 7)),
                        (''error'', JStr ''Unsupported image type'')],
                  JObj [(''index'', JNum (Num 2)), (''success'', JBool False),
                        (''inferenceTime'', JNum (Num 7)), (''error'', JStr ''No face detected'')],
                  JObj [(''index'', JNum (Num 3)), (''success'', JBool False),
                        (''inferenceTime'', JNum (Num 7)),
                        (''error'', JStr ''inference failed'')]]"
    by (simp add: items_from_def sample_batch_def upt_rec item_of_def sample_env_def
                  engine_by_image_def face_def failed_item_def num_def confidence_of_def s0_def)
  have len: "length sample_batch = 4" by (simp add: sample_batch_def)
  show ?thesis
    unfolding batch_extract_eq[OF h1 h2] items
    by (simp add: json_def batch_summary_def item_success_def num_def len js_divide_def
                  sample_env_def s0_def)
qed

text \<open>
  C5. For every array of payloads the batch route answers HTTP 200 with one result per
  payload, in input order, the result at position \<open>i\<close> carrying \<open>index = i\<close> (so the indices
  are \<open>0, \<dots>, n - 1\<close>, each once); in the summary \<open>total\<close> is the number of payloads,
  \<open>successful\<close> the number of results with a true \<open>success\<close>, \<open>failed\<close> the number of the
  others, and \<open>successful + failed = total\<close>.
\<close>

theorem batch_results_indexed:
  assumes "modelsLoaded srv" "images req = Some (JArr imgs)"
  shows "\<exists>rs summ tot su fa.
           status (fst (batch_extract E srv req s)) = 200 \<and>
           field (body (fst (batch_extract E srv req s))) ''results'' = Some (JArr rs) \<and>
           field (body (fst (batch_extract E srv req s))) ''summary'' = Some summ \<and>
           length rs = length imgs \<and>
           (\<forall>i<length imgs. field (rs ! i) ''index'' = Some (JNum (Num (real i)))) \<and>
           map (\<lambda>r. field r ''index'') rs =
             map (\<lambda>i. Some (JNum (Num (real i)))) [0..<length imgs] \<and>
           field summ ''total'' = Some (JNum (Num tot)) \<and>
           field summ ''successful'' = Some (JNum (Num su)) \<and>
           field summ ''failed'' = Some (JNum (Num fa)) \<and>
           tot = real (length imgs) \<and>
           su = real (length (filter item_success rs)) \<and>
           fa = real (length (filter (\<lambda>r. \<not> item_success r) rs)) \<and>
           su + fa = tot"
proof -
  let ?rs = "items_from E imgs (ticks s + 1) 0"
  let ?summ = "batch_summary (length imgs) (length (filter item_success ?rs))
                 (now E (ticks s + 2 * length imgs + 1) - now E (ticks s))"
  note b = batch_results[OF assms, of E s]
  have idx: "\<forall>i<length imgs. field (?rs ! i) ''index'' = Some (JNum (Num (real i)))"
    by (simp add: nth_items_from item_index)
  have idxs: "map (\<lambda>r. field r ''index'') ?rs =
             map (\<lambda>i. Some (JNum (Num (real i)))) [0..<length imgs]"
    by (rule nth_equalityI) (simp_all add: nth_items_from item_index)
  have cnt: "length (filter item_success ?rs) + length (filter (\<lambda>r. \<not> item_success r) ?rs) =
             length imgs"
    using sum_length_filter_compl[of item_success ?rs] by simp
  then have fa: "real (length imgs) - real (length (filter item_success ?rs)) =
             real (length (filter (\<lambda>r. \<not> item_success r) ?rs))"
    by linarith
  have s1: "field ?summ ''total'' = Some (JNum (Num (real (length imgs))))"
    and s2: "field ?summ ''successful'' = Some (JNum (Num (real (length (filter item_success ?rs)))))"
    by (simp_all add: batch_summary_def num_def)
  have s3: "field ?summ ''failed'' =
              Some (JNum (Num (real (length (filter (\<lambda>r. \<not> item_success r) ?rs)))))"
    using fa by (simp add: batch_summary_def num_def)
  have tot: "real (length (filter item_success ?rs)) +
             real (length (filter (\<lambda>r. \<not> item_success r) ?rs)) = real (length imgs)"
    using cnt by linarith
  show ?thesis
    using b idx idxs s1 s2 s3 tot length_items_from[of E imgs "ticks s + 1"] by blast
qed

theorem batch_results_indexed_witness:
  "modelsLoaded ready \<and> images (batch sample_batch) = Some (JArr sample_batch) \<and>
   length sample_batch = 4 \<and>
   (\<exists>rs. field (body (fst (batch_extract (sample_env engine_by_image) ready
                               (batch sample_batch) s0))) ''results'' = Some (JArr rs) \<and>
         length rs = 4 \<and>
         map (\<lambda>r. field r ''index'') rs =
           [Some (JNum (Num 0)), Some (JNum (Num 1)), Some (JNum (Num 2)), Some (JNum (Num 3))]) \<and>
   field (body (fst (batch_extract (sample_env engine_by_image) ready (batch sample_batch) s0)))
     ''summary'' =
     Some (JObj [(''total'', JNum (Num 4)), (''successful'', JNum (Num 1)),
                 (''failed'', JNum (Num 3)), (''totalTime'', JNum (Num 63)),
                 (''averageTime'', JNum (Num 16))])"
proof -
  have h1: "modelsLoaded ready" by (simp add: ready_def)
  have h2: "images (batch sample_batch) = Some (JArr sample_batch)" by (simp add: batch_def)
  have len: "length sample_batch = 4" by (simp add: sample_batch_def)
  from batch_results_indexed[OF h1 h2, of "sample_env engine_by_image" s0]
  obtain rs where
    r: "field (body (fst (batch_extract (sample_env engine_by_image) ready
                               (batch sample_batch) s0))) ''results'' = Some (JArr rs)"
    and l: "length rs = length sample_batch"
    and m: "map (\<lambda>r. field r ''index'') rs =
             map (\<lambda>i. Some (JNum (Num (real i)))) [0..<length sample_batch]"
    by blast
  have m': "map (\<lambda>r. field r ''index'') rs =
           [Some (JNum (Num 0)), Some (JNum (Num 1)), Some (JNum (Num 2)), Some (JNum (Num 3))]"
    using m by (simp add: len upt_rec)
  have su: "field (body (fst (batch_extract (sample_env engine_by_image) ready
                                (batch sample_batch) s0))) ''summary'' =
     Some (JObj [(''total'', JNum (Num 4)), (''successful'', JNum (Num 1)),
                 (''failed'', JNum (Num 3)), (''totalTime'', JNum (Num 63)),
                 (''averageTime'', JNum (Num 16))])"
    by (simp add: sample_batch_response)
  from h1 h2 len r l m' su show ?thesis by auto
qed

text \<open>
  C6. Whatever fails on an item, the batch is answered with HTTP 200 and all \<open>n\<close> results.
  An item whose payload does not decode, or on which the engine rejects, has
  \<open>success = false\<close> and the message of the error as \<open>error\<close>; an item for which the engine
  gives no detection carrying a descriptor has \<open>success = false\<close> and the error
  \<^verbatim>\<open>No face detected\<close>. The result at a position depends on the payload at that position
  alone: two batches that agree at position \<open>j\<close> have the same result there, whatever
  their other items are.
\<close>

theorem batch_failure_isolated:
  assumes "modelsLoaded srv" "images req = Some (JArr imgs)"
  shows "\<exists>rs.
           status (fst (batch_extract E srv req s)) = 200 \<and>
           field (body (fst (batch_extract E srv req s))) ''results'' = Some (JArr rs) \<and>
           length rs = length imgs \<and>
           (\<forall>i msg. i < length imgs \<and> loadImage E (imgs ! i) = Throws msg \<longrightarrow>
              field (rs ! i) ''success'' = Some (JBool False) \<and>
              field (rs ! i) ''error'' = Some (JStr msg)) \<and>
           (\<forall>i img msg. i < length imgs \<and> loadImage E (imgs ! i) = Returns img \<and>
              detectSingleFace E img (TinyFaceDetectorOptions 416 0.3) = Throws msg \<longrightarrow>
              field (rs ! i) ''success'' = Some (JBool False) \<and>
              field (rs ! i) ''error'' = Some (JStr msg)) \<and>
           (\<forall>i img det. i < length imgs \<and> loadImage E (imgs ! i) = Returns img \<and>
              detectSingleFace E img (TinyFaceDetectorOptions 416 0.3) = Returns det \<and>
              \<not> accepted det \<longrightarrow>
              field (rs ! i) ''success'' = Some (JBool False) \<and>
              field (rs ! i) ''error'' = Some (JStr ''No face detected'')) \<and>
           (\<forall>j req' imgs'. images req' = Some (JArr imgs') \<and> j < length imgs \<and>
              j < length imgs' \<and> imgs' ! j = imgs ! j \<longrightarrow>
              (\<exists>rs'. field (body (fst (batch_extract E srv req' s))) ''results'' =
                       Some (JArr rs') \<and> rs' ! j = rs ! j))"
proof -
  let ?rs = "items_from E imgs (ticks s + 1) 0"
  note b = batch_results[OF assms, of E s]
  have a: "\<forall>i msg. i < length imgs \<and> loadImage E (imgs ! i) = Throws msg \<longrightarrow>
              field (?rs ! i) ''success'' = Some (JBool False) \<and>
              field (?rs ! i) ''error'' = Some (JStr msg)"
    by (simp add: nth_items_from item_decode_throws failed_item_fields)
  have c: "\<forall>i img msg. i < length imgs \<and> loadImage E (imgs ! i) = Returns img \<and>
              detectSingleFace E img (TinyFaceDetectorOptions 416 0.3) = Throws msg \<longrightarrow>
              field (?rs ! i) ''success'' = Some (JBool False) \<and>
              field (?rs ! i) ''error'' = Some (JStr msg)"
    by (simp add: nth_items_from item_detect_throws failed_item_fields)
  have d: "\<forall>i img det. i < length imgs \<and> loadImage E (imgs ! i) = Returns img \<and>
              detectSingleFace E img (TinyFaceDetectorOptions 416 0.3) = Returns det \<and>
              \<not> accepted det \<longrightarrow>
              field (?rs ! i) ''success'' = Some (JBool False) \<and>
              field (?rs ! i) ''error'' = Some (JStr ''No face detected'')"
    by (auto simp: nth_items_from item_not_accepted failed_item_fields)
  have e: "\<forall>j req' imgs'. images req' = Some (JArr imgs') \<and> j < length imgs \<and>
              j < length imgs' \<and> imgs' ! j = imgs ! j \<longrightarrow>
              (\<exists>rs'. field (body (fst (batch_extract E srv req' s))) ''results'' =
                       Some (JArr rs') \<and> rs' ! j = ?rs ! j)"
  proof (intro allI impI)
    fix j and req' :: request and imgs' :: "js_value list"
    assume h: "images req' = Some (JArr imgs') \<and> j < length imgs \<and>
              j < length imgs' \<and> imgs' ! j = imgs ! j"
    then have i': "images req' = Some (JArr imgs')" by blast
    have "items_from E imgs' (ticks s + 1) 0 ! j = ?rs ! j"
      using h by (simp add: nth_items_from)
    with batch_results(2)[OF assms(1) i', of E s]
    show "\<exists>rs'. field (body (fst (batch_extract E srv req' s))) ''results'' =
                       Some (JArr rs') \<and> rs' ! j = ?rs ! j"
      by blast
  qed
  from b(1,2) a c d e length_items_from[of E imgs "ticks s + 1"] show ?thesis by blast
qed


theorem batch_failure_isolated_witness:
  "modelsLoaded ready \<and> images (batch sample_batch) = Some (JArr sample_batch) \<and>
   loadImage (sample_env engine_by_image) (sample_batch ! 1) = Throws ''Unsupported image type'' \<and>
   loadImage (sample_env engine_by_image) (sample_batch ! 3) = Returns 6 \<and>
   detectSingleFace (sample_env engine_by_image) 6 (TinyFaceDetectorOptions 416 0.3) =
     Throws ''inference failed'' \<and>
   loadImage (sample_env engine_by_image) (sample_batch ! 2) = Returns 5 \<and>
   detectSingleFace (sample_env engine_by_image) 5 (TinyFaceDetectorOptions 416 0.3) =
     Returns None \<and>
   images (batch [JStr ''AAAA'']) = Some (JArr [JStr ''AAAA'']) \<and>
   [JStr ''AAAA''] ! 0 = sample_batch ! 0 \<and>
   (\<exists>rs rs'.
      field (body (fst (batch_extract (sample_env engine_by_image) ready (batch sample_batch) s0)))
        ''results'' = Some (JArr rs) \<and>
      length rs = 4 \<and>
      field (rs ! 0) ''success'' = Some (JBool True) \<and>
      field (rs ! 1) ''success'' = Some (JBool False) \<and>
      field (rs ! 1) ''error'' = Some (JStr ''Unsupported image type'') \<and>
      field (rs ! 2) ''success'' = Some (JBool False) \<and>
      field (rs ! 2) ''error'' = Some (JStr ''No face detected'') \<and>
      field (rs ! 3) ''success'' = Some (JBool False) \<and>
      field (rs ! 3) ''error'' = Some (JStr ''inference failed'') \<and>
      field (body (fst (batch_extract (sample_env engine_by_image) ready
                          (batch [JStr ''AAAA'']) s0))) ''results'' = Some (JArr rs') \<and>
      rs' ! 0 = rs ! 0)"
proof -
  let ?E = "sample_env engine_by_image"
  have h1: "modelsLoaded ready" by (simp add: ready_def)
  have h2: "images (batch sample_batch) = Some (JArr sample_batch)" by (simp add: batch_def)
  have len: "length sample_batch = 4" by (simp add: sample_batch_def)
  have a1: "loadImage ?E (sample_batch ! 1) = Throws ''Unsupported image type''"
    by (simp add: sample_batch_def sample_env_def)
  have a3: "loadImage ?E (sample_batch ! 3) = Returns 6"
    by (simp add: sample_batch_def sample_env_def)
  have b3: "detectSingleFace ?E 6 (TinyFaceDetectorOptions 416 0.3) = Throws ''inference failed''"
    by (simp add: sample_env_def engine_by_image_def)
  have a2: "loadImage ?E (sample_batch ! 2) = Returns 5"
    by (simp add: sample_batch_def sample_env_def)
  have b2: "detectSingleFace ?E 5 (TinyFaceDetectorOptions 416 0.3) = Returns None"
    by (simp add: sample_env_def engine_by_image_def)
  have i': "images (batch [JStr ''AAAA'']) = Some (JArr [JStr ''AAAA''])" by (simp add: batch_def)
  have same: "[JStr ''AAAA''] ! 0 = sample_batch ! 0" by (simp add: sample_batch_def)
  from batch_failure_isolated[OF h1 h2, of ?E s0]
  obtain rs where
    r: "field (body (fst (batch_extract ?E ready (batch sample_batch) s0))) ''results'' =
          Some (JArr rs)"
    and l: "length rs = length sample_batch"
    and dec: "\<And>i msg. i < length sample_batch \<and> loadImage ?E (sample_batch ! i) = Throws msg \<Longrightarrow>
              field (rs ! i) ''success'' = Some (JBool False) \<and>
              field (rs ! i) ''error'' = Some (JStr msg)"
    and thr: "\<And>i img msg. i < length sample_batch \<and> loadImage ?E (sample_batch ! i) = Returns img \<and>
              detectSingleFace ?E img (TinyFaceDetectorOptions 416 0.3) = Throws msg \<Longrightarrow>
              field (rs ! i) ''success'' = Some (JBool False) \<and>
              field (rs ! i) ''error'' = Some (JStr msg)"
    and nof: "\<And>i img det. i < length sample_batch \<and> loadImage ?E (sample_batch ! i) = Returns img \<and>
              detectSingleFace ?E img (TinyFaceDetectorOptions 416 0.3) = Returns det \<and>
              \<not> accepted det \<Longrightarrow>
              field (rs ! i) ''success'' = Some (JBool False) \<and>
              field (rs ! i) ''error'' = Some (JStr ''No face detected'')"
    and iso: "\<And>j req' imgs'. images req' = Some (JArr imgs') \<and> j < length sample_batch \<and>
              j < length imgs' \<and> imgs' ! j = sample_batch ! j \<Longrightarrow>
              (\<exists>rs'. field (body (fst (batch_extract ?E ready req' s0))) ''results'' =
                       Some (JArr rs') \<and> rs' ! j = rs ! j)"
    by blast
  have r1: "field (rs ! 1) ''success'' = Some (JBool False) \<and>
            field (rs ! 1) ''error'' = Some (JStr ''Unsupported image type'')"
    using dec[of 1 "''Unsupported image type''"] a1 len by simp
  have r3: "field (rs ! 3) ''success'' = Some (JBool False) \<and>
            field (rs ! 3) ''error'' = Some (JStr ''inference failed'')"
    using thr[of 3 6 "''inference failed''"] a3 b3 len by simp
  have r2: "field (rs ! 2) ''success'' = Some (JBool False) \<and>
            field (rs ! 2) ''error'' = Some (JStr ''No face detected'')"
    using nof[of 2 5 None] a2 b2 len by simp
  from iso[of "batch [JStr ''AAAA'']" "[JStr ''AAAA'']" 0] i' same len
  obtain rs' where
    r': "field (body (fst (batch_extract ?E ready (batch [JStr ''AAAA'']) s0))) ''results'' =
           Some (JArr rs')" "rs' ! 0 = rs ! 0"
    by auto
  have "rs = [JObj [(''index'', JNum (Num 0)), (''success'', JBool True),
                        (''embedding'', JArr [JNum (Num 0.1), JNum (Num 0.2)]),
                        (''inferenceTime'', JNum (Num 7)), (''confidence'', JNum (Num 0.9))],
                  JObj [(''index'', JNum (Num 1)), (''success'', JBool False),
                        (''inferenceTime'', JNum (Num 7)),
                        (''error'', JStr ''Unsupported image type'')],
                  JObj [(''index'', JNum (Num 2)), (''success'', JBool False),
                        (''inferenceTime'', JNum (Num 7)), (''error'', JStr ''No face detected'')],
                  JObj [(''index'', JNum (Num 3)), (''success'', JBool False),
                        (''inferenceTime'', JNum (Num 7)),
                        (''error'', JStr ''inference failed'')]]"
    using r by (simp add: sample_batch_response)
  then have r0: "field (rs ! 0) ''success'' = Some (JBool True)" by simp
  from h1 h2 a1 a3 b3 a2 b2 i' same r l len r0 r1 r2 r3 r' show ?thesis by auto
qed

lemma confidence_of_eq:
  "confidence_of d = JNum (Num (case score (detection d) of None \<Rightarrow> 0 | Some v \<Rightarrow> v))"
  by (simp add: confidence_of_def num_def split: option.splits)

text \<open>
  C9. In a successful answer of the single-image route and in a successful batch item,
  \<open>confidence\<close> is the score of the detection that was accepted when that detection has a
  score, and \<open>0\<close> when it has none. (A score is a finite number.)
\<close>

theorem confidence_reported:
  assumes "modelsLoaded srv"
  shows "(image req = Some payload \<and> truthy payload \<and> loadImage E payload = Returns img \<and>
          dropWhile (attempt_fails E img) strategies = w # post \<and>
          detectSingleFace E img (options w) = Returns (Some d) \<longrightarrow>
            field (body (fst (extract_embedding_with strategies E srv req s))) ''success'' =
              Some (JBool True) \<and>
            field (body (fst (extract_embedding_with strategies E srv req s))) ''confidence'' =
              Some (JNum (Num (case score (detection d) of None \<Rightarrow> 0 | Some v \<Rightarrow> v)))) \<and>
         (images req = Some (JArr imgs) \<and> i < length imgs \<and>
          loadImage E (imgs ! i) = Returns img' \<and>
          detectSingleFace E img' (TinyFaceDetectorOptions 416 0.3) = Returns (Some d') \<and>
          descriptor d' \<noteq> None \<longrightarrow>
            (\<exists>rs. field (body (fst (batch_extract E srv req s))) ''results'' = Some (JArr rs) \<and>
               field (rs ! i) ''success'' = Some (JBool True) \<and>
               field (rs ! i) ''confidence'' =
                 Some (JNum (Num (case score (detection d') of None \<Rightarrow> 0 | Some v \<Rightarrow> v)))))"
proof (intro conjI impI)
  assume h: "image req = Some payload \<and> truthy payload \<and> loadImage E payload = Returns img \<and>
          dropWhile (attempt_fails E img) strategies = w # post \<and>
          detectSingleFace E img (options w) = Returns (Some d)"
  then have h2: "image req = Some payload" and h3: "truthy payload"
    and h4: "loadImage E payload = Returns img"
    and h5: "dropWhile (attempt_fails E img) strategies = w # post"
    and h6: "detectSingleFace E img (options w) = Returns (Some d)"
    by blast+
  from handler_winner[OF assms h2 h3 h4 h5, of s] h6 obtain desc T where
    r: "fst (extract_embedding_with strategies E srv req s) =
           json (success_response d desc T (Some (name w)))"
    by auto
  show "field (body (fst (extract_embedding_with strategies E srv req s))) ''success'' =
              Some (JBool True)"
    by (simp add: r json_def success_response_def)
  show "field (body (fst (extract_embedding_with strategies E srv req s))) ''confidence'' =
              Some (JNum (Num (case score (detection d) of None \<Rightarrow> 0 | Some v \<Rightarrow> v)))"
    by (simp add: r json_def success_response_def confidence_of_eq)
next
  assume h: "images req = Some (JArr imgs) \<and> i < length imgs \<and>
          loadImage E (imgs ! i) = Returns img' \<and>
          detectSingleFace E img' (TinyFaceDetectorOptions 416 0.3) = Returns (Some d') \<and>
          descriptor d' \<noteq> None"
  then have h2: "images req = Some (JArr imgs)" and h3: "i < length imgs"
    and h4: "loadImage E (imgs ! i) = Returns img'"
    and h5: "detectSingleFace E img' (TinyFaceDetectorOptions 416 0.3) = Returns (Some d')"
    by blast+
  from h obtain desc where h6: "descriptor d' = Some desc" by auto
  let ?rs = "items_from E imgs (ticks s + 1) 0"
  have "field (?rs ! i) ''success'' = Some (JBool True)"
    and "field (?rs ! i) ''confidence'' =
           Some (JNum (Num (case score (detection d') of None \<Rightarrow> 0 | Some v \<Rightarrow> v)))"
    by (simp_all add: nth_items_from[OF h3] item_accepted[OF h4 h5 h6] confidence_of_eq)
  with batch_results(2)[OF assms h2, of E s]
  show "\<exists>rs. field (body (fst (batch_extract E srv req s))) ''results'' = Some (JArr rs) \<and>
               field (rs ! i) ''success'' = Some (JBool True) \<and>
               field (rs ! i) ''confidence'' =
                 Some (JNum (Num (case score (detection d') of None \<Rightarrow> 0 | Some v \<Rightarrow> v)))"
    by blast
qed

theorem confidence_reported_witness:
  "modelsLoaded ready \<and>
   image (single ''AAAA'') = Some (JStr ''AAAA'') \<and> truthy (JStr ''AAAA'') \<and>
   loadImage (sample_env engine_flaky) (JStr ''AAAA'') = Returns 4 \<and>
   dropWhile (attempt_fails (sample_env engine_flaky) 4) detectionStrategies =
     [\<lparr>name = ''TinyFaceDetector_Low'', options = TinyFaceDetectorOptions 224 0.5\<rparr>,
      \<lparr>name = ''SsdMobilenetv1'', options = SsdMobilenetv1Options 0.3\<rparr>] \<and>
   detectSingleFace (sample_env engine_flaky) 4 (TinyFaceDetectorOptions 224 0.5) =
     Returns (Some (face None [0.1, 0.2])) \<and>
   score (detection (face None [0.1, 0.2])) = None \<and>
   field (body (fst (extract_embedding (sample_env engine_flaky) ready (single ''AAAA'') s0)))
     ''confidence'' = Some (JNum (Num 0)) \<and>
   images (batch sample_batch) = Some (JArr sample_batch) \<and>
   loadImage (sample_env engine_by_image) (sample_batch ! 0) = Returns 4 \<and>
   detectSingleFace (sample_env engine_by_image) 4 (TinyFaceDetectorOptions 416 0.3) =
     Returns (Some (face (Some 0.9) [0.1, 0.2])) \<and>
   descriptor (face (Some 0.9) [0.1, 0.2]) \<noteq> None \<and>
   score (detection (face (Some 0.9) [0.1, 0.2])) = Some 0.9 \<and>
   (\<exists>rs. field (body (fst (batch_extract (sample_env engine_by_image) ready
                               (batch sample_batch) s0))) ''results'' = Some (JArr rs) \<and>
         field (rs ! 0) ''confidence'' = Some (JNum (Num 0.9)))"
proof -
  let ?F = "sample_env engine_flaky" and ?B = "sample_env engine_by_image"
  let ?w = "\<lparr>name = ''TinyFaceDetector_Low'', options = TinyFaceDetectorOptions 224 0.5\<rparr>"
  let ?post = "[\<lparr>name = ''SsdMobilenetv1'', options = SsdMobilenetv1Options 0.3\<rparr>]"
  have h1: "modelsLoaded ready" by (simp add: ready_def)
  have s2: "image (single ''AAAA'') = Some (JStr ''AAAA'')" by (simp add: single_def)
  have s3: "truthy (JStr ''AAAA'')" by simp
  have s4: "loadImage ?F (JStr ''AAAA'') = Returns 4" by (simp add: sample_env_def)
  have s5: "dropWhile (attempt_fails ?F 4) detectionStrategies = ?w # ?post"
    by (simp add: detectionStrategies_def attempt_fails_def attempt_ok_def sample_env_def
                  engine_flaky_def face_def)
  have s6: "detectSingleFace ?F 4 (options ?w) = Returns (Some (face None [0.1, 0.2]))"
    by (simp add: sample_env_def engine_flaky_def)
  have s7: "score (detection (face None [0.1, 0.2])) = None" by (simp add: face_def)
  have b2: "images (batch sample_batch) = Some (JArr sample_batch)" by (simp add: batch_def)
  have b3: "0 < length sample_batch" by (simp add: sample_batch_def)
  have b4: "loadImage ?B (sample_batch ! 0) = Returns 4"
    by (simp add: sample_batch_def sample_env_def)
  have b5: "detectSingleFace ?B 4 (TinyFaceDetectorOptions 416 0.3) =
     Returns (Some (face (Some 0.9) [0.1, 0.2]))"
    by (simp add: sample_env_def engine_by_image_def)
  have b6: "descriptor (face (Some 0.9) [0.1, 0.2]) \<noteq> None" by (simp add: face_def)
  have b7: "score (detection (face (Some 0.9) [0.1, 0.2])) = Some 0.9" by (simp add: face_def)
  note c1 = confidence_reported[OF h1, of "single ''AAAA''" "JStr ''AAAA''" ?F 4
      detectionStrategies ?w ?post "face None [0.1, 0.2]" s0, THEN conjunct1]
  note c2 = confidence_reported[OF h1, of "batch sample_batch" _ ?B _ _ _ _ _ s0 sample_batch 0 4
      "face (Some 0.9) [0.1, 0.2]", THEN conjunct2]
  from c1 s2 s3 s4 s5 s6 s7
  have r1: "field (body (fst (extract_embedding ?F ready (single ''AAAA'') s0)))
     ''confidence'' = Some (JNum (Num 0))"
    by (simp add: extract_embedding_def)
  from c2 b2 b3 b4 b5 b6 b7
  have r2: "\<exists>rs. field (body (fst (batch_extract ?B ready (batch sample_batch) s0))) ''results'' =
              Some (JArr rs) \<and> field (rs ! 0) ''confidence'' = Some (JNum (Num 0.9))"
    by auto
  from h1 s2 s3 s4 s5 s6 s7 r1 b2 b4 b5 b6 b7 r2 show ?thesis by simp
qed

text \<open>
  C10. The batch route calls the engine once for each payload that decodes, always with
  the tiny detector at input size 416 and score threshold 0.3, and with no other options.
  An item whose attempt under these options gives no accepted detection is recorded with
  \<open>success = false\<close>, whatever the engine would answer under other options.
\<close>

theorem batch_single_configuration:
  assumes "modelsLoaded srv" "images req = Some (JArr imgs)"
  shows "detect_calls (trace (snd (batch_extract E srv req s))) =
           detect_calls (trace s) @
           map (\<lambda>img. (img, TinyFaceDetectorOptions 416 0.3)) (decoded E imgs) \<and>
         (\<exists>rs. field (body (fst (batch_extract E srv req s))) ''results'' = Some (JArr rs) \<and>
            (\<forall>i img. i < length imgs \<and> loadImage E (imgs ! i) = Returns img \<and>
               (\<forall>det. detectSingleFace E img (TinyFaceDetectorOptions 416 0.3) = Returns det \<longrightarrow>
                  \<not> accepted det) \<longrightarrow>
               field (rs ! i) ''success'' = Some (JBool False)))"
proof -
  let ?rs = "items_from E imgs (ticks s + 1) 0"
  have a: "detect_calls (trace (snd (batch_extract E srv req s))) =
           detect_calls (trace s) @
           map (\<lambda>img. (img, TinyFaceDetectorOptions 416 0.3)) (decoded E imgs)"
    by (simp add: batch_extract_eq[OF assms] detect_calls_items)
  have b: "\<forall>i img. i < length imgs \<and> loadImage E (imgs ! i) = Returns img \<and>
               (\<forall>det. detectSingleFace E img (TinyFaceDetectorOptions 416 0.3) = Returns det \<longrightarrow>
                  \<not> accepted det) \<longrightarrow>
               field (?rs ! i) ''success'' = Some (JBool False)"
  proof (intro allI impI)
    fix i and img :: 'a
    assume h: "i < length imgs \<and> loadImage E (imgs ! i) = Returns img \<and>
               (\<forall>det. detectSingleFace E img (TinyFaceDetectorOptions 416 0.3) = Returns det \<longrightarrow>
                  \<not> accepted det)"
    show "field (?rs ! i) ''success'' = Some (JBool False)"
    proof (cases "detectSingleFace E img (TinyFaceDetectorOptions 416 0.3)")
      case (Returns det)
      with h have "\<not> accepted det" by blast
      with h Returns show ?thesis
        by (simp add: nth_items_from item_not_accepted failed_item_fields)
    next
      case (Throws msg)
      with h show ?thesis
        by (simp add: nth_items_from item_detect_throws failed_item_fields)
    qed
  qed
  from a b batch_results(2)[OF assms, of E s] show ?thesis by blast
qed

theorem batch_single_configuration_witness:
  "modelsLoaded ready \<and> images (batch [JStr ''AAAA'']) = Some (JArr [JStr ''AAAA'']) \<and>
   loadImage (sample_env engine_ssd_only) ([JStr ''AAAA''] ! 0) = Returns 4 \<and>
   detectSingleFace (sample_env engine_ssd_only) 4 (TinyFaceDetectorOptions 416 0.3) = Returns None \<and>
   detect_calls (trace (snd (batch_extract (sample_env engine_ssd_only) ready
                               (batch [JStr ''AAAA'']) s0))) =
     [(4, TinyFaceDetectorOptions 416 0.3)] \<and>
   (\<exists>rs. field (body (fst (batch_extract (sample_env engine_ssd_only) ready
                               (batch [JStr ''AAAA'']) s0))) ''results'' = Some (JArr rs) \<and>
         field (rs ! 0) ''success'' = Some (JBool False)) \<and>
   field (body (fst (extract_embedding (sample_env engine_ssd_only) ready (single ''AAAA'') s0)))
     ''success'' = Some (JBool True) \<and>
   field (body (fst (extract_embedding (sample_env engine_ssd_only) ready (single ''AAAA'') s0)))
     ''strategy'' = Some (JStr ''SsdMobilenetv1'')"
proof -
  let ?E = "sample_env engine_ssd_only"
  have h1: "modelsLoaded ready" by (simp add: ready_def)
  have h2: "images (batch [JStr ''AAAA'']) = Some (JArr [JStr ''AAAA''])" by (simp add: batch_def)
  have h3: "loadImage ?E ([JStr ''AAAA''] ! 0) = Returns 4" by (simp add: sample_env_def)
  have h4: "detectSingleFace ?E 4 (TinyFaceDetectorOptions 416 0.3) = Returns None"
    by (simp add: sample_env_def engine_ssd_only_def)
  note t = batch_single_configuration[OF h1 h2, of ?E s0]
  have d: "decoded ?E [JStr ''AAAA''] = [4]" by (simp add: decoded_def sample_env_def)
  from t have c: "detect_calls (trace (snd (batch_extract ?E ready (batch [JStr ''AAAA'']) s0))) =
     [(4, TinyFaceDetectorOptions 416 0.3)]"
    by (simp add: d s0_def)
  from t obtain rs where
    r: "field (body (fst (batch_extract ?E ready (batch [JStr ''AAAA'']) s0))) ''results'' =
          Some (JArr rs)"
    and f: "\<And>i img. i < length [JStr ''AAAA''] \<and> loadImage ?E ([JStr ''AAAA''] ! i) = Returns img \<and>
               (\<forall>det. detectSingleFace ?E img (TinyFaceDetectorOptions 416 0.3) = Returns det \<longrightarrow>
                  \<not> accepted det) \<Longrightarrow>
               field (rs ! i) ''success'' = Some (JBool False)"
    by blast
  have r0: "field (rs ! 0) ''success'' = Some (JBool False)"
    using f[of 0 4] h3 h4 by simp
  have sg: "field (body (fst (extract_embedding ?E ready (single ''AAAA'') s0))) ''success'' =
              Some (JBool True) \<and>
            field (body (fst (extract_embedding ?E ready (single ''AAAA'') s0))) ''strategy'' =
              Some (JStr ''SsdMobilenetv1'')"
    by (simp add: extract_embedding_def extract_embedding_with_def detectionStrategies_def
                sample_env_def engine_ssd_only_def face_def ready_def single_def s0_def
                Date_now_def emit_def json_def success_response_def)
  from h1 h2 h3 h4 c r r0 sg show ?thesis by auto
qed

end
